theory Spec2Isabelle
  imports Main "HOL-Library.Sublist"
begin

section \<open>FocusAI backend: relevance heuristic, session accrual, summary\<close>

text \<open>
  A shallow embedding of \<^verbatim>\<open>main.py\<close> and \<^verbatim>\<open>schemas.py\<close>.

  Text is modelled as \<^typ>\<open>string\<close>, a character being a code point below 256. On these
  \<open>str.lower\<close> maps \<open>A\<close>..\<open>Z\<close> to \<open>a\<close>..\<open>z\<close> and the capital letters \<open>0xC0\<close>..\<open>0xDE\<close>
  (all but the sign \<open>0xD7\<close>) to the letters 32 places further, and \<open>str.split()\<close> cuts at
  the twelve code points below 256 that Python takes for whitespace. Python integers are
  \<^typ>\<open>int\<close>.
\<close>

subsection \<open>Python string primitives\<close>

text \<open>
  \<^verbatim>\<open>c.lower()\<close> on one character below 256: the letters \<open>A\<close>..\<open>Z\<close>, \<open>0xC0\<close>..\<open>0xD6\<close> and
  \<open>0xD8\<close>..\<open>0xDE\<close> have a lowercase form, every other character is left as it is.
\<close>

definition lower_table :: "(char \<times> char) list" where
  "lower_table =
     [(CHR ''A'', CHR ''a''), (CHR ''B'', CHR ''b''), (CHR ''C'', CHR ''c''), (CHR ''D'', CHR ''d''),
      (CHR ''E'', CHR ''e''), (CHR ''F'', CHR ''f''), (CHR ''G'', CHR ''g''), (CHR ''H'', CHR ''h''),
      (CHR ''I'', CHR ''i''), (CHR ''J'', CHR ''j''), (CHR ''K'', CHR ''k''), (CHR ''L'', CHR ''l''),
      (CHR ''M'', CHR ''m''), (CHR ''N'', CHR ''n''), (CHR ''O'', CHR ''o''), (CHR ''P'', CHR ''p''),
      (CHR ''Q'', CHR ''q''), (CHR ''R'', CHR ''r''), (CHR ''S'', CHR ''s''), (CHR ''T'', CHR ''t''),
      (CHR ''U'', CHR ''u''), (CHR ''V'', CHR ''v''), (CHR ''W'', CHR ''w''), (CHR ''X'', CHR ''x''),
      (CHR ''Y'', CHR ''y''), (CHR ''Z'', CHR ''z''), (CHR 0xC0, CHR 0xE0), (CHR 0xC1, CHR 0xE1),
      (CHR 0xC2, CHR 0xE2), (CHR 0xC3, CHR 0xE3), (CHR 0xC4, CHR 0xE4), (CHR 0xC5, CHR 0xE5),
      (CHR 0xC6, CHR 0xE6), (CHR 0xC7, CHR 0xE7), (CHR 0xC8, CHR 0xE8), (CHR 0xC9, CHR 0xE9),
      (CHR 0xCA, CHR 0xEA), (CHR 0xCB, CHR 0xEB), (CHR 0xCC, CHR 0xEC), (CHR 0xCD, CHR 0xED),
      (CHR 0xCE, CHR 0xEE), (CHR 0xCF, CHR 0xEF), (CHR 0xD0, CHR 0xF0), (CHR 0xD1, CHR 0xF1),
      (CHR 0xD2, CHR 0xF2), (CHR 0xD3, CHR 0xF3), (CHR 0xD4, CHR 0xF4), (CHR 0xD5, CHR 0xF5),
      (CHR 0xD6, CHR 0xF6), (CHR 0xD8, CHR 0xF8), (CHR 0xD9, CHR 0xF9), (CHR 0xDA, CHR 0xFA),
      (CHR 0xDB, CHR 0xFB), (CHR 0xDC, CHR 0xFC), (CHR 0xDD, CHR 0xFD), (CHR 0xDE, CHR 0xFE)]"

definition lower_char :: "char \<Rightarrow> char" where
  "lower_char c = (case map_of lower_table c of None \<Rightarrow> c | Some d \<Rightarrow> d)"

text \<open>\<^verbatim>\<open>s.lower()\<close>.\<close>

definition lower :: "string \<Rightarrow> string" where
  "lower s = map lower_char s"

text \<open>
  \<^verbatim>\<open>c.isspace()\<close> on one character below 256: tab, line feed, vertical tab, form feed,
  carriage return, the four separators \<open>0x1C\<close>..\<open>0x1F\<close>, the blank, the next-line control
  \<open>0x85\<close> and the no-break space \<open>0xA0\<close>.
\<close>

definition is_space :: "char \<Rightarrow> bool" where
  "is_space c =
     (c \<in> set [CHR 0x09, CHR 0x0A, CHR 0x0B, CHR 0x0C, CHR 0x0D,
                CHR 0x1C, CHR 0x1D, CHR 0x1E, CHR 0x1F, CHR 0x20, CHR 0x85, CHR 0xA0])"

text \<open>
  \<^verbatim>\<open>s.split()\<close>: the maximal runs of non-whitespace characters, in order. The first
  argument of the loop is the word read so far.
\<close>

fun split_from :: "string \<Rightarrow> string \<Rightarrow> string list" where
  "split_from cur [] = (if cur = [] then [] else [cur])"
| "split_from cur (c # cs) =
     (if is_space c then (if cur = [] then split_from [] cs else cur # split_from [] cs)
      else split_from (cur @ [c]) cs)"

definition split :: "string \<Rightarrow> string list" where
  "split s = split_from [] s"

text \<open>\<^verbatim>\<open>sep.join(parts)\<close>.\<close>

fun join :: "string \<Rightarrow> string list \<Rightarrow> string" where
  "join sep [] = []"
| "join sep [p] = p"
| "join sep (p # q # ps) = p @ sep @ join sep (q # ps)"

text \<open>\<^verbatim>\<open>kw in text\<close> on strings: \<open>kw\<close> occurs as a contiguous substring of \<open>text\<close>.\<close>

fun str_in :: "string \<Rightarrow> string \<Rightarrow> bool" where
  "str_in kw [] = (kw = [])"
| "str_in kw (c # cs) = (prefix kw (c # cs) \<or> str_in kw cs)"

text \<open>\<^verbatim>\<open>x or ""\<close> for an optional string: \<open>None\<close> and the empty string both give \<open>""\<close>.\<close>

definition or_empty :: "string option \<Rightarrow> string" where
  "or_empty x = (case x of None \<Rightarrow> [] | Some s \<Rightarrow> s)"

subsection \<open>The relevance heuristic\<close>

text \<open>
  \<^verbatim>\<open>BLOCKLIST_KEYWORDS\<close>: a dict literal, kept as an association list in declaration
  order.
\<close>

definition BLOCKLIST_KEYWORDS :: "(string \<times> string list) list" where
  "BLOCKLIST_KEYWORDS =
     [(''social'', [''twitter'', ''x.com'', ''facebook'', ''instagram'', ''tiktok'', ''reddit'']),
      (''nsfw'', [''porn'', ''nsfw'', ''xxx'']),
      (''games'', [''steam'', ''epicgames'', ''roblox'', ''league of legends'', ''valorant''])]"

text \<open>\<^verbatim>\<open>BLOCKLIST_KEYWORDS.get(cat, [])\<close>.\<close>

definition blocklist_get :: "string \<Rightarrow> string list" where
  "blocklist_get cat = (case map_of BLOCKLIST_KEYWORDS cat of None \<Rightarrow> [] | Some kws \<Rightarrow> kws)"

text \<open>The f-string \<^verbatim>\<open>f"Matched blocked keyword '{kw}' in category '{cat}'"\<close>.\<close>

definition matched_reason :: "string \<Rightarrow> string \<Rightarrow> string" where
  "matched_reason kw cat =
     ''Matched blocked keyword '' @ [CHR 0x27] @ kw @ [CHR 0x27] @ '' in category '' @
     [CHR 0x27] @ cat @ [CHR 0x27]"

text \<open>
  The inner loop \<^verbatim>\<open>for kw in BLOCKLIST_KEYWORDS.get(cat, [])\<close>: the first keyword
  of the list that occurs in the text, if any.
\<close>

fun scan_keywords :: "string \<Rightarrow> string list \<Rightarrow> string option" where
  "scan_keywords text [] = None"
| "scan_keywords text (kw # kws) = (if str_in kw text then Some kw else scan_keywords text kws)"

text \<open>
  The outer loop \<^verbatim>\<open>for cat in categories\<close>: the first category of the session's list
  one of whose keywords occurs in the text, with that keyword.
\<close>

fun scan_categories :: "string \<Rightarrow> string list \<Rightarrow> (string \<times> string) option" where
  "scan_categories text [] = None"
| "scan_categories text (cat # cats) =
     (case scan_keywords text (blocklist_get cat) of
        Some kw \<Rightarrow> Some (kw, cat)
      | None \<Rightarrow> scan_categories text cats)"

text \<open>The text blob of \<^verbatim>\<open>classify_relevance\<close>.\<close>

definition blob :: "string \<Rightarrow> string option \<Rightarrow> string option \<Rightarrow> string" where
  "blob goal title url = join '' '' [lower goal, lower (or_empty title), lower (or_empty url)]"

text \<open>\<^verbatim>\<open>[w for w in goal.lower().split() if len(w) > 3]\<close>.\<close>

definition goal_words :: "string \<Rightarrow> string list" where
  "goal_words goal = filter (\<lambda>w. length w > 3) (split (lower goal))"

definition classify_relevance ::
  "string \<Rightarrow> string option \<Rightarrow> string option \<Rightarrow> string list \<Rightarrow> string \<times> string" where
  "classify_relevance goal title url categories =
     (let text = blob goal title url in
      case scan_categories text categories of
        Some (kw, cat) \<Rightarrow> (''irrelevant'', matched_reason kw cat)
      | None \<Rightarrow>
          if list_ex (\<lambda>w. str_in w text) (goal_words goal)
          then (''relevant'', ''Goal keywords found in current context'')
          else (''relevant'', ''No blocklisted signals detected''))"

subsection \<open>Documents and request bodies\<close>

type_synonym timestamp = nat

text \<open>
  A BSON \<open>ObjectId\<close>, which is its binary. One of twelve bytes, as every identifier the
  store generates is, is kept as the number its bytes write; \<^verbatim>\<open>ObjectId(s)\<close> can also
  build one whose binary has fewer bytes, kept as these bytes.
\<close>

datatype oid = Oid nat | ShortId "nat list"

text \<open>\<^verbatim>\<open>Literal["active", "ended"]\<close>.\<close>

datatype session_status = active | ended

text \<open>\<^verbatim>\<open>class User(BaseModel)\<close>.\<close>

record User =
  u_name :: "string option"
  u_email :: "string option"
  u_device_id :: string
  u_voice :: "string option"

text \<open>
  \<^verbatim>\<open>class Session(BaseModel)\<close>, as the document of the \<open>session\<close> collection; the
  field \<open>updated_at\<close> is the one \<^verbatim>\<open>update_activity\<close> sets on the stored document.
\<close>

record Session =
  user_id :: string
  goal :: string
  duration_minutes :: int
  categories :: "string list"
  voice :: "string option"
  started_at :: "timestamp option"
  ended_at :: "timestamp option"
  total_focus_seconds :: int
  total_idle_seconds :: int
  distractions_blocked :: int
  status :: session_status
  updated_at :: "timestamp option"

text \<open>\<^verbatim>\<open>class ActivityEvent(BaseModel)\<close>.\<close>

record ActivityEvent =
  ev_session_id :: string
  ev_user_id :: string
  ev_timestamp :: timestamp
  ev_device :: "string option"
  ev_app :: "string option"
  ev_url :: "string option"
  ev_title :: "string option"
  ev_idle :: bool
  ev_decision :: "string option"
  ev_reason :: "string option"

text \<open>\<^verbatim>\<open>class StartSessionRequest(BaseModel)\<close>.\<close>

record StartSessionRequest =
  rq_user_id :: string
  rq_goal :: string
  rq_duration_minutes :: int
  rq_categories :: "string list"
  rq_voice :: "string option"

text \<open>\<^verbatim>\<open>class UpdateActivityRequest(BaseModel)\<close>.\<close>

record UpdateActivityRequest =
  ua_session_id :: string
  ua_user_id :: string
  ua_app :: "string option"
  ua_url :: "string option"
  ua_title :: "string option"
  ua_idle :: bool

text \<open>
  What an endpoint can raise: the \<open>InvalidId\<close> of \<^verbatim>\<open>ObjectId(...)\<close>, an
  \<^verbatim>\<open>HTTPException(status_code, detail)\<close>, and the validation error of a model's
  constructor.
\<close>

datatype error = InvalidId | HTTPException nat string | ValidationError

subsection \<open>The document store\<close>

text \<open>
  Modelled from the spec: the module \<^verbatim>\<open>database\<close> (\<open>db\<close>, \<open>create_document\<close>,
  \<open>get_documents\<close>) is not part of the sources. Following the spec, there is one
  collection per entity type, every document is keyed by a store-generated unique
  identifier, creation adds the entity's fields under a new identifier, and reading
  returns the matching documents up to the limit. A collection is an association list in
  insertion order.
\<close>

record db =
  user_coll :: "(oid \<times> User) list"
  session_coll :: "(oid \<times> Session) list"
  activityevent_coll :: "(oid \<times> ActivityEvent) list"

text \<open>Modelled from the spec: the store-generated identifier, new in its collection.\<close>

fun oid_num :: "oid \<Rightarrow> nat" where
  "oid_num (Oid n) = n"
| "oid_num (ShortId bs) = 0"

definition new_oid :: "(oid \<times> 'a) list \<Rightarrow> oid" where
  "new_oid coll = Oid (Suc (fold max (map (\<lambda>(k, doc). oid_num k) coll) 0))"

text \<open>Modelled from the spec: \<open>insert_one\<close> under a new identifier, which is returned.\<close>

definition insert_one :: "(oid \<times> 'a) list \<Rightarrow> 'a \<Rightarrow> oid \<times> (oid \<times> 'a) list" where
  "insert_one coll doc = (let k = new_oid coll in (k, coll @ [(k, doc)]))"

text \<open>\<^verbatim>\<open>list(coll.find({"_id": k}))\<close>.\<close>

definition find_by_id :: "(oid \<times> 'a) list \<Rightarrow> oid \<Rightarrow> 'a list" where
  "find_by_id coll k = map snd (filter (\<lambda>(k', doc). k' = k) coll)"

text \<open>
  \<^verbatim>\<open>coll.update_one({"_id": k}, ...)\<close>: the first matching document is updated; the
  second component is \<open>matched_count\<close>.
\<close>

fun update_one :: "(oid \<times> 'a) list \<Rightarrow> oid \<Rightarrow> ('a \<Rightarrow> 'a) \<Rightarrow> (oid \<times> 'a) list \<times> nat" where
  "update_one [] k f = ([], 0)"
| "update_one ((k', doc) # rest) k f =
     (if k' = k then ((k', f doc) # rest, 1)
      else (let (rest', n) = update_one rest k f in ((k', doc) # rest', n)))"

text \<open>
  Modelled from the spec: \<^verbatim>\<open>get_documents("session", {"user_id": u}, limit=n)\<close>, at
  most \<open>n\<close> of the user's session documents.
\<close>

definition get_documents_session :: "db \<Rightarrow> string \<Rightarrow> nat \<Rightarrow> Session list" where
  "get_documents_session st u limit =
     take limit (map snd (filter (\<lambda>(k, doc). user_id doc = u) (session_coll st)))"

subsection \<open>Store identifiers as text\<close>

definition hex_val :: "char \<Rightarrow> nat option" where
  "hex_val c =
     map_of (zip ''0123456789abcdefABCDEF''
       [0, 1, 2, 3, 4, 5, 6, 7, 8, 9, 10, 11, 12, 13, 14, 15, 10, 11, 12, 13, 14, 15]) c"

text \<open>
  The whitespace \<^verbatim>\<open>bytes.fromhex\<close> skips: tab, line feed, vertical tab, form feed,
  carriage return and the blank.
\<close>

definition hex_space :: "char \<Rightarrow> bool" where
  "hex_space c = (c \<in> set [CHR 0x09, CHR 0x0A, CHR 0x0B, CHR 0x0C, CHR 0x0D, CHR 0x20])"

text \<open>
  \<^verbatim>\<open>bytes.fromhex(s)\<close>: whitespace before a byte is skipped, then two hexadecimal digits
  next to each other make the byte; anything else raises \<open>ValueError\<close> (\<open>None\<close>).
\<close>

fun fromhex :: "string \<Rightarrow> nat list option" where
  "fromhex [] = Some []"
| "fromhex [c] = (if hex_space c then Some [] else None)"
| "fromhex (c # c' # cs) =
     (if hex_space c then fromhex (c' # cs)
      else (case hex_val c of
              None \<Rightarrow> None
            | Some hi \<Rightarrow>
                (case hex_val c' of
                   None \<Rightarrow> None
                 | Some lo \<Rightarrow> map_option ((#) (16 * hi + lo)) (fromhex cs))))"

text \<open>The number that the bytes write, the first byte the most significant.\<close>

definition from_bytes :: "nat list \<Rightarrow> nat" where
  "from_bytes bs = foldl (\<lambda>a b. 256 * a + b) 0 bs"

definition oid_of_bytes :: "nat list \<Rightarrow> oid" where
  "oid_of_bytes bs = (if length bs = 12 then Oid (from_bytes bs) else ShortId bs)"

text \<open>
  \<^verbatim>\<open>ObjectId(s)\<close> of the \<open>bson\<close> library on a string: \<open>InvalidId\<close> is raised unless the
  string has 24 characters and \<^verbatim>\<open>bytes.fromhex\<close> reads it; the identifier is the bytes read.
\<close>

definition ObjectId :: "string \<Rightarrow> error + oid" where
  "ObjectId s =
     (if length s = 24
      then (case fromhex s of None \<Rightarrow> Inl InvalidId | Some bs \<Rightarrow> Inr (oid_of_bytes bs))
      else Inl InvalidId)"

fun to_hex :: "nat \<Rightarrow> nat \<Rightarrow> string" where
  "to_hex 0 v = []"
| "to_hex (Suc n) v = to_hex n (v div 16) @ [''0123456789abcdef'' ! (v mod 16)]"

text \<open>\<^verbatim>\<open>str(inserted_id)\<close>: the binary in lowercase hexadecimal digits, two for a byte.\<close>

fun str_oid :: "oid \<Rightarrow> string" where
  "str_oid (Oid n) = to_hex 24 n"
| "str_oid (ShortId bs) = concat (map (to_hex 2) bs)"

subsection \<open>Endpoints\<close>

text \<open>\<^verbatim>\<open>register_user\<close>.\<close>

definition register_user :: "db \<Rightarrow> User \<Rightarrow> string \<times> db" where
  "register_user st user =
     (let (k, coll) = insert_one (user_coll st) user in (str_oid k, st\<lparr>user_coll := coll\<rparr>))"

text \<open>
  The constructor \<^verbatim>\<open>Session(...)\<close>: the only constrained field is
  \<^verbatim>\<open>duration_minutes: int = Field(..., ge=1, le=480)\<close>.
\<close>

definition validate_Session :: "Session \<Rightarrow> error + Session" where
  "validate_Session s =
     (if 1 \<le> duration_minutes s \<and> duration_minutes s \<le> 480 then Inr s else Inl ValidationError)"

text \<open>
  The \<^verbatim>\<open>Session(...)\<close> that \<^verbatim>\<open>start_session\<close> builds from the request;
  the timestamp is the value of \<^verbatim>\<open>datetime.now(timezone.utc)\<close>.
\<close>

definition new_session :: "StartSessionRequest \<Rightarrow> timestamp \<Rightarrow> Session" where
  "new_session payload now =
     \<lparr>user_id = rq_user_id payload,
      goal = rq_goal payload,
      duration_minutes = rq_duration_minutes payload,
      categories = rq_categories payload,
      voice = Some (if or_empty (rq_voice payload) = [] then ''Cluely''
                    else or_empty (rq_voice payload)),
      started_at = Some now,
      ended_at = None,
      total_focus_seconds = 0,
      total_idle_seconds = 0,
      distractions_blocked = 0,
      status = active,
      updated_at = None\<rparr>"

text \<open>\<^verbatim>\<open>start_session\<close>. The response is the pair \<open>(session_id, status)\<close>.\<close>

definition start_session ::
  "db \<Rightarrow> StartSessionRequest \<Rightarrow> timestamp \<Rightarrow> (error + string \<times> session_status) \<times> db" where
  "start_session st payload now =
     (case validate_Session (new_session payload now) of
        Inl e \<Rightarrow> (Inl e, st)
      | Inr session \<Rightarrow>
          (let (k, coll) = insert_one (session_coll st) session
           in (Inr (str_oid k, status session), st\<lparr>session_coll := coll\<rparr>)))"

text \<open>
  The update document of \<^verbatim>\<open>update_activity\<close>:
  \<^verbatim>\<open>{"$inc": inc, "$set": {"updated_at": now}}\<close> with
  \<^verbatim>\<open>inc = {"distractions_blocked": 1} if decision == "irrelevant" else {"total_focus_seconds": 30}\<close>.
\<close>

definition accrue :: "string \<Rightarrow> timestamp \<Rightarrow> Session \<Rightarrow> Session" where
  "accrue decision now doc =
     (if decision = ''irrelevant''
      then doc\<lparr>distractions_blocked := distractions_blocked doc + 1, updated_at := Some now\<rparr>
      else doc\<lparr>total_focus_seconds := total_focus_seconds doc + 30, updated_at := Some now\<rparr>)"

text \<open>
  \<^verbatim>\<open>update_activity\<close>; \<open>t_event\<close> and \<open>t_update\<close> are the values of the clock for the
  event and for the update. The response is the pair \<open>(decision, reason)\<close>.
\<close>

definition update_activity ::
  "db \<Rightarrow> UpdateActivityRequest \<Rightarrow> timestamp \<Rightarrow> timestamp \<Rightarrow> (error + string \<times> string) \<times> db" where
  "update_activity st payload t_event t_update =
     (case ObjectId (ua_session_id payload) of
        Inl e \<Rightarrow> (Inl e, st)
      | Inr k \<Rightarrow>
          (case find_by_id (session_coll st) k of
             [] \<Rightarrow> (Inl (HTTPException 404 ''Session not found''), st)
           | sdoc # _ \<Rightarrow>
               (let (decision, reason) =
                      classify_relevance (goal sdoc) (ua_title payload) (ua_url payload)
                        (categories sdoc);
                    event = \<lparr>ev_session_id = ua_session_id payload,
                             ev_user_id = ua_user_id payload,
                             ev_timestamp = t_event,
                             ev_device = Some ''web'',
                             ev_app = ua_app payload,
                             ev_url = ua_url payload,
                             ev_title = ua_title payload,
                             ev_idle = ua_idle payload,
                             ev_decision = Some decision,
                             ev_reason = Some reason\<rparr>;
                    (_, events) = insert_one (activityevent_coll st) event;
                    (sessions, _) = update_one (session_coll st) k (accrue decision t_update)
                in (Inr (decision, reason),
                    st\<lparr>activityevent_coll := events, session_coll := sessions\<rparr>))))"

text \<open>\<^verbatim>\<open>end_session\<close>; the response is the status string.\<close>

definition end_session :: "db \<Rightarrow> string \<Rightarrow> timestamp \<Rightarrow> (error + string) \<times> db" where
  "end_session st session_id now =
     (case ObjectId session_id of
        Inl e \<Rightarrow> (Inl e, st)
      | Inr k \<Rightarrow>
          (let (sessions, matched_count) =
                 update_one (session_coll st) k (\<lambda>doc. doc\<lparr>status := ended, ended_at := Some now\<rparr>)
           in if matched_count = 0 then (Inl (HTTPException 404 ''Session not found''), st)
              else (Inr ''ended'', st\<lparr>session_coll := sessions\<rparr>)))"

text \<open>The response of \<^verbatim>\<open>session_summary\<close>.\<close>

record Summary =
  sm_sessions :: nat
  sm_total_focus_seconds :: int
  sm_total_idle_seconds :: int
  sm_distractions_blocked :: int
  sm_streak_days :: nat

definition session_summary :: "db \<Rightarrow> string \<Rightarrow> Summary" where
  "session_summary st u =
     (let sessions = get_documents_session st u 50
      in \<lparr>sm_sessions = length sessions,
          sm_total_focus_seconds = sum_list (map total_focus_seconds sessions),
          sm_total_idle_seconds = sum_list (map total_idle_seconds sessions),
          sm_distractions_blocked = sum_list (map distractions_blocked sessions),
          sm_streak_days = min (length sessions) 7\<rparr>)"

subsection \<open>Sequences of requests\<close>

datatype request =
    Register User
  | Start StartSessionRequest timestamp
  | Activity UpdateActivityRequest timestamp timestamp
  | End string timestamp
  | Summarize string

text \<open>The store after one request; a request that raises leaves the store as it was.\<close>

fun handle :: "db \<Rightarrow> request \<Rightarrow> db" where
  "handle st (Register user) = snd (register_user st user)"
| "handle st (Start payload now) = snd (start_session st payload now)"
| "handle st (Activity payload t_event t_update) = snd (update_activity st payload t_event t_update)"
| "handle st (End session_id now) = snd (end_session st session_id now)"
| "handle st (Summarize u) = st"

fun run :: "db \<Rightarrow> request list \<Rightarrow> db" where
  "run st [] = st"
| "run st (r # rs) = run (handle st r) rs"

text \<open>The stored session under an identifier: the first document \<open>find\<close> returns.\<close>

definition lookup_session :: "db \<Rightarrow> oid \<Rightarrow> Session option" where
  "lookup_session st k = (case find_by_id (session_coll st) k of [] \<Rightarrow> None | doc # _ \<Rightarrow> Some doc)"

subsection \<open>Orders of matching\<close>

text \<open>
  The keyword and category pairs in the order the two loops of \<^verbatim>\<open>classify_relevance\<close>
  visit them: the session's categories as listed, each with its keywords in table order.
\<close>

definition category_pairs :: "string list \<Rightarrow> (string \<times> string) list" where
  "category_pairs cats = concat (map (\<lambda>cat. map (\<lambda>kw. (kw, cat)) (blocklist_get cat)) cats)"

text \<open>
  Following the spec's words, not the code: ``first match in table-declaration order
  wins''. The pairs of the static table in declaration order, and the first of them whose
  category is enabled and whose keyword occurs in the text.
\<close>

definition table_pairs :: "(string \<times> string) list" where
  "table_pairs = concat (map (\<lambda>(cat, kws). map (\<lambda>kw. (kw, cat)) kws) BLOCKLIST_KEYWORDS)"

definition table_order_match :: "string \<Rightarrow> string list \<Rightarrow> (string \<times> string) option" where
  "table_order_match text cats =
     List.find (\<lambda>(kw, cat). cat \<in> set cats \<and> str_in kw text) table_pairs"

subsection \<open>The order on session documents\<close>

text \<open>No counter is smaller in the second document, and an ended session stays ended.\<close>

definition session_le :: "Session \<Rightarrow> Session \<Rightarrow> bool" where
  "session_le d d' \<longleftrightarrow>
     total_focus_seconds d \<le> total_focus_seconds d' \<and>
     total_idle_seconds d \<le> total_idle_seconds d' \<and>
     distractions_blocked d \<le> distractions_blocked d' \<and>
     (status d = ended \<longrightarrow> status d' = ended)"

subsection \<open>Example data\<close>

definition example_session :: "string \<Rightarrow> int \<Rightarrow> int \<Rightarrow> int \<Rightarrow> session_status \<Rightarrow> Session" where
  "example_session u f i n s =
     \<lparr>user_id = u, goal = ''finish report'', duration_minutes = 25,
      categories = [''social''], voice = Some ''Cluely'', started_at = Some 0,
      ended_at = None, total_focus_seconds = f, total_idle_seconds = i,
      distractions_blocked = n, status = s, updated_at = None\<rparr>"

text \<open>A store holding the given session documents under the identifiers 1, 2, ...\<close>

definition example_store :: "Session list \<Rightarrow> db" where
  "example_store docs =
     \<lparr>user_coll = [], session_coll = zip (map Oid [1 ..< Suc (length docs)]) docs,
      activityevent_coll = []\<rparr>"

definition example_activity :: "string \<Rightarrow> string option \<Rightarrow> bool \<Rightarrow> UpdateActivityRequest" where
  "example_activity sid t i =
     \<lparr>ua_session_id = sid, ua_user_id = ''u'', ua_app = None, ua_url = None,
      ua_title = t, ua_idle = i\<rparr>"

definition example_start :: "int \<Rightarrow> StartSessionRequest" where
  "example_start n =
     \<lparr>rq_user_id = ''u'', rq_goal = ''finish report'', rq_duration_minutes = n,
      rq_categories = [''social''], rq_voice = None\<rparr>"

section \<open>Properties of the relevance heuristic\<close>

subsection \<open>Substrings, words and the blob\<close>

lemma str_in_sublist: "str_in kw b = sublist kw b"
  by (induction b) (simp_all add: sublist_Cons_right)

lemma str_in_iff: "str_in kw b \<longleftrightarrow> (\<exists>p s. b = p @ kw @ s)"
  by (simp add: str_in_sublist sublist_def)

lemma letters_apart:
  "list_all (\<lambda>d. d \<notin> set (map fst lower_table)) (map snd lower_table)"
  "list_all (\<lambda>c. \<not> is_space c) (map fst lower_table @ map snd lower_table)"
  by (simp_all add: lower_table_def is_space_def)

lemma lower_char_cases:
  "(c \<notin> set (map fst lower_table) \<and> lower_char c = c) \<or>
   (c \<in> set (map fst lower_table) \<and> lower_char c \<in> set (map snd lower_table))"
proof -
  consider (none) "map_of lower_table c = None"
    | (some) d where "map_of lower_table c = Some d"
    by auto
  then show ?thesis
  proof cases
    case none
    then have "c \<notin> set (map fst lower_table)"
      by (simp add: map_of_eq_None_iff)
    with none show ?thesis by (simp add: lower_char_def)
  next
    case some
    then have "(c, d) \<in> set lower_table"
      by (rule map_of_SomeD)
    then have "c \<in> set (map fst lower_table)" "d \<in> set (map snd lower_table)"
      by force+
    with some show ?thesis by (simp add: lower_char_def)
  qed
qed

lemma lower_char_fixed: "c \<notin> set (map fst lower_table) \<Longrightarrow> lower_char c = c"
  using lower_char_cases [of c] by blast

lemma lower_char_idem: "lower_char (lower_char c) = lower_char c"
  using lower_char_cases [of c] letters_apart(1)
  by (auto simp: list_all_iff lower_char_fixed)

lemma is_space_lower_char: "is_space (lower_char c) = is_space c"
  using lower_char_cases [of c] letters_apart(2)
  by (auto simp: list_all_iff)

lemma lower_blank: "lower_char CHR '' '' = CHR '' ''"
  by (rule lower_char_fixed) (simp add: lower_table_def)

lemma lower_blob: "lower (blob g t u) = blob g t u"
  by (simp add: blob_def lower_def lower_char_idem lower_blank)

lemma split_from_lower: "split_from (lower cur) (lower s) = map lower (split_from cur s)"
proof (induction s arbitrary: cur)
  case Nil
  then show ?case by (simp add: lower_def)
next
  case (Cons c cs)
  have snoc: "lower (cur @ [c]) = lower cur @ [lower_char c]"
    by (simp add: lower_def)
  have cons: "lower (c # cs) = lower_char c # lower cs"
    by (simp add: lower_def)
  have nil: "lower [] = []" "(lower cur = []) = (cur = [])"
    by (simp_all add: lower_def)
  show ?case
    using Cons.IH [of "[]"] Cons.IH [of "cur @ [c]"]
    by (simp add: cons snoc nil is_space_lower_char)
qed

lemma split_lower: "split (lower s) = map lower (split s)"
  using split_from_lower [of "[]" s] by (simp add: split_def lower_def)

lemma split_from_sublist: "w \<in> set (split_from cur s) \<Longrightarrow> sublist w (cur @ s)"
proof (induction s arbitrary: cur)
  case Nil
  then show ?case by (auto split: if_splits)
next
  case (Cons c cs)
  consider (stop) "is_space c" "w = cur"
    | (later) "is_space c" "w \<in> set (split_from [] cs)"
    | (grow) "\<not> is_space c" "w \<in> set (split_from (cur @ [c]) cs)"
    using Cons.prems by (auto split: if_splits)
  then show ?case
  proof cases
    case stop
    then show ?thesis by simp
  next
    case later
    then have "sublist w cs" using Cons.IH [of "[]"] by simp
    then obtain p s where "cs = p @ w @ s"
      by (auto simp: sublist_def)
    then have "cur @ c # cs = (cur @ c # p) @ w @ s" by simp
    then show ?thesis unfolding sublist_def by blast
  next
    case grow
    then have "sublist w ((cur @ [c]) @ cs)" using Cons.IH by blast
    then show ?thesis by simp
  qed
qed

lemma split_sublist: "w \<in> set (split s) \<Longrightarrow> str_in w s"
  using split_from_sublist [of w "[]" s] by (simp add: split_def str_in_sublist)

lemma str_in_blob_goal:
  assumes "str_in w (lower g)"
  shows "str_in w (blob g t u)"
proof -
  from assms obtain p s where "lower g = p @ w @ s"
    by (auto simp: str_in_iff)
  then have "blob g t u = p @ w @ (s @ '' '' @ lower (or_empty t) @ '' '' @ lower (or_empty u))"
    by (simp add: blob_def)
  then show ?thesis unfolding str_in_iff by blast
qed

lemma str_in_matched_reason:
  "str_in kw (matched_reason kw cat) \<and> str_in cat (matched_reason kw cat)"
proof -
  have "matched_reason kw cat =
      (''Matched blocked keyword '' @ [CHR 0x27]) @ kw @
      ([CHR 0x27] @ '' in category '' @ [CHR 0x27] @ cat @ [CHR 0x27])"
    by (simp add: matched_reason_def)
  moreover have "matched_reason kw cat =
      (''Matched blocked keyword '' @ [CHR 0x27] @ kw @ [CHR 0x27] @ '' in category '' @
       [CHR 0x27]) @ cat @ [CHR 0x27]"
    by (simp add: matched_reason_def)
  ultimately show ?thesis unfolding str_in_iff by blast
qed

subsection \<open>The two loops\<close>

lemma scan_keywords_find: "scan_keywords b kws = List.find (\<lambda>kw. str_in kw b) kws"
  by (induction kws) simp_all

lemma scan_keywords_None: "scan_keywords b kws = None \<longleftrightarrow> (\<forall>kw\<in>set kws. \<not> str_in kw b)"
  by (induction kws) simp_all

lemma scan_keywords_Some: "scan_keywords b kws = Some kw \<Longrightarrow> kw \<in> set kws \<and> str_in kw b"
  by (induction kws) (auto split: if_splits)

lemma scan_categories_None:
  "scan_categories b cats = None \<longleftrightarrow>
     (\<forall>cat\<in>set cats. \<forall>kw\<in>set (blocklist_get cat). \<not> str_in kw b)"
  by (induction cats)
     (auto simp: scan_keywords_None split: option.splits dest: scan_keywords_Some)

lemma scan_categories_Some:
  "scan_categories b cats = Some (kw, cat) \<Longrightarrow>
     cat \<in> set cats \<and> kw \<in> set (blocklist_get cat) \<and> str_in kw b"
  by (induction cats) (auto split: option.splits dest: scan_keywords_Some)

lemma find_append:
  "List.find P (xs @ ys) = (case List.find P xs of None \<Rightarrow> List.find P ys | Some x \<Rightarrow> Some x)"
  by (induction xs) simp_all

lemma find_map_pair:
  "List.find (\<lambda>(kw, cat). P kw) (map (\<lambda>kw. (kw, c)) kws) =
     map_option (\<lambda>kw. (kw, c)) (List.find P kws)"
  by (induction kws) simp_all

lemma scan_categories_find:
  "scan_categories b cats = List.find (\<lambda>(kw, cat). str_in kw b) (category_pairs cats)"
  by (induction cats)
     (simp_all add: category_pairs_def find_append find_map_pair scan_keywords_find
        split: option.splits)

lemma table_order_listing:
  "scan_categories b (filter P (map fst BLOCKLIST_KEYWORDS)) =
   table_order_match b (filter P (map fst BLOCKLIST_KEYWORDS))"
  by (simp add: table_order_match_def table_pairs_def BLOCKLIST_KEYWORDS_def blocklist_get_def)

lemma decision_cases:
  "fst (classify_relevance g t u cats) = ''relevant'' \<or>
   fst (classify_relevance g t u cats) = ''irrelevant''"
  by (simp add: classify_relevance_def Let_def split: option.splits)

lemma classify_unblocked:
  assumes "\<forall>cat\<in>set cats. \<forall>kw\<in>set (blocklist_get cat). \<not> str_in kw (blob g t u)"
  shows "classify_relevance g t u cats =
     (if \<exists>w\<in>set (split (lower g)). length w > 3 \<and> str_in w (blob g t u)
      then (''relevant'', ''Goal keywords found in current context'')
      else (''relevant'', ''No blocklisted signals detected''))"
proof -
  from assms have "scan_categories (blob g t u) cats = None"
    by (simp add: scan_categories_None)
  then show ?thesis
    by (auto simp: classify_relevance_def goal_words_def list_ex_iff)
qed

lemma goal_word_found:
  assumes "\<exists>w\<in>set (split g). length w > 3"
  shows "list_ex (\<lambda>w. str_in w (blob g t u)) (goal_words g)"
proof -
  from assms obtain w where w: "w \<in> set (split g)" "length w > 3" by blast
  then have in_lower: "lower w \<in> set (split (lower g))" by (simp add: split_lower)
  moreover have "length (lower w) > 3" using w by (simp add: lower_def)
  ultimately have "lower w \<in> set (goal_words g)" by (simp add: goal_words_def)
  moreover have "str_in (lower w) (blob g t u)"
    using in_lower by (intro str_in_blob_goal split_sublist)
  ultimately show ?thesis by (auto simp: list_ex_iff)
qed

subsection \<open>Evaluations\<close>

lemmas classify_eval =
  classify_relevance_def blob_def lower_def lower_char_def lower_table_def or_empty_def blocklist_get_def
  BLOCKLIST_KEYWORDS_def goal_words_def split_def is_space_def

lemma blocklist_social:
  "blocklist_get ''social'' =
     [''twitter'', ''x.com'', ''facebook'', ''instagram'', ''tiktok'', ''reddit'']"
  by (simp add: blocklist_get_def BLOCKLIST_KEYWORDS_def)

lemma classify_twitter:
  "classify_relevance ''finish report'' (Some ''Twitter feed'') None [''social''] =
     (''irrelevant'', matched_reason ''twitter'' ''social'')"
  by (simp add: classify_eval)

lemma classify_report:
  "classify_relevance ''finish report'' (Some ''Quarterly report'') None [''social''] =
     (''relevant'', ''Goal keywords found in current context'')"
  by (simp add: classify_eval)

lemma classify_abc:
  "classify_relevance ''abc'' (Some ''Unrelated Page'') None [] =
     (''relevant'', ''No blocklisted signals detected'')"
  "classify_relevance ''abc'' (Some ''Unrelated Page'') None [''social''] =
     (''relevant'', ''No blocklisted signals detected'')"
  by (simp_all add: classify_eval)

lemma classify_thesis:
  "classify_relevance ''write thesis chapter'' (Some ''Thesis Chapter Draft - Google Docs'') None
     [] = (''relevant'', ''Goal keywords found in current context'')"
  by (simp add: classify_eval)

text \<open>A no-break space cuts the goal into two words of three characters.\<close>

lemma classify_no_break_space:
  "split (''abc'' @ [CHR 0xA0] @ ''def'') = [''abc'', ''def'']"
  "classify_relevance (''abc'' @ [CHR 0xA0] @ ''def'') None None [] =
     (''relevant'', ''No blocklisted signals detected'')"
  by (simp_all add: classify_eval)

subsection \<open>Blocked keywords\<close>

text \<open>
  Claim C1. The blob is the lowercased goal, the lowercased title (or the empty string) and
  the lowercased url (or the empty string), in this order, joined by one blank, and it is
  all lowercase. If a keyword of the static table for one of the enabled categories occurs
  in the blob, the decision is \<open>irrelevant\<close> and the reason is the message built from a
  keyword and a category that match (the first ones the loops meet), so it contains both.
  For the goal ``finish report'', the category list \<open>[social]\<close> and the title
  ``Twitter feed'' the decision is \<open>irrelevant\<close> and the reason contains ``twitter'' and
  ``social''.
\<close>

theorem classify_blocked_keyword:
  "blob g t u = lower g @ '' '' @ lower (or_empty t) @ '' '' @ lower (or_empty u) \<and>
   lower (blob g t u) = blob g t u \<and>
   ((\<exists>cat\<in>set cats. \<exists>kw\<in>set (blocklist_get cat). str_in kw (blob g t u)) \<longrightarrow>
    (\<exists>cat\<in>set cats. \<exists>kw\<in>set (blocklist_get cat).
       str_in kw (blob g t u) \<and>
       classify_relevance g t u cats = (''irrelevant'', matched_reason kw cat) \<and>
       str_in kw (matched_reason kw cat) \<and> str_in cat (matched_reason kw cat))) \<and>
   classify_relevance ''finish report'' (Some ''Twitter feed'') None [''social''] =
     (''irrelevant'', matched_reason ''twitter'' ''social'') \<and>
   str_in ''twitter'' (matched_reason ''twitter'' ''social'') \<and>
   str_in ''social'' (matched_reason ''twitter'' ''social'')"
proof (intro conjI impI)
  show "blob g t u = lower g @ '' '' @ lower (or_empty t) @ '' '' @ lower (or_empty u)"
    by (simp add: blob_def)
  show "lower (blob g t u) = blob g t u" by (rule lower_blob)
  show "classify_relevance ''finish report'' (Some ''Twitter feed'') None [''social''] =
     (''irrelevant'', matched_reason ''twitter'' ''social'')"
    by (rule classify_twitter)
  show "str_in ''twitter'' (matched_reason ''twitter'' ''social'')"
    using str_in_matched_reason by blast
  show "str_in ''social'' (matched_reason ''twitter'' ''social'')"
    using str_in_matched_reason by blast
next
  assume "\<exists>cat\<in>set cats. \<exists>kw\<in>set (blocklist_get cat). str_in kw (blob g t u)"
  then have "scan_categories (blob g t u) cats \<noteq> None"
    by (simp add: scan_categories_None)
  then obtain kw cat where m: "scan_categories (blob g t u) cats = Some (kw, cat)"
    by auto
  from scan_categories_Some [OF m] have
    "cat \<in> set cats" "kw \<in> set (blocklist_get cat)" "str_in kw (blob g t u)"
    by simp_all
  moreover from m have "classify_relevance g t u cats = (''irrelevant'', matched_reason kw cat)"
    by (simp add: classify_relevance_def)
  ultimately show "\<exists>cat\<in>set cats. \<exists>kw\<in>set (blocklist_get cat).
       str_in kw (blob g t u) \<and>
       classify_relevance g t u cats = (''irrelevant'', matched_reason kw cat) \<and>
       str_in kw (matched_reason kw cat) \<and> str_in cat (matched_reason kw cat)"
    using str_in_matched_reason by blast
qed

lemma twitter_in_blob: "str_in ''twitter'' (blob ''finish report'' (Some ''Twitter feed'') None)"
  by (simp add: blob_def lower_def lower_char_def lower_table_def or_empty_def)

theorem classify_blocked_keyword_witness:
  "str_in ''twitter'' (blob ''finish report'' (Some ''Twitter feed'') None) \<and>
   (\<exists>cat\<in>set [''social'']. \<exists>kw\<in>set (blocklist_get cat).
       str_in kw (blob ''finish report'' (Some ''Twitter feed'') None) \<and>
       classify_relevance ''finish report'' (Some ''Twitter feed'') None [''social''] =
         (''irrelevant'', matched_reason kw cat) \<and>
       str_in kw (matched_reason kw cat) \<and> str_in cat (matched_reason kw cat))"
proof -
  have h: "\<exists>cat\<in>set [''social'']. \<exists>kw\<in>set (blocklist_get cat).
      str_in kw (blob ''finish report'' (Some ''Twitter feed'') None)"
    using twitter_in_blob by (simp add: blocklist_social)
  show ?thesis
    using classify_blocked_keyword
            [of "''finish report''" "Some ''Twitter feed''" None "[''social'']"]
          h twitter_in_blob
    by blast
qed

subsection \<open>No blocked keyword\<close>

text \<open>
  Claim C3, as amended. When no keyword of an enabled category occurs in the blob: if a word
  of the lowercased goal longer than 3 characters occurs in the blob, the result is
  \<open>relevant\<close> with the reason ``Goal keywords found in current context'', and otherwise it is
  \<open>relevant\<close> with the reason ``No blocklisted signals detected'' (both reasons begin with a
  capital letter). For the goal ``abc'', no category and the title ``Unrelated Page'' the
  result is \<open>relevant\<close> with ``No blocklisted signals detected''. The decision is always
  \<open>relevant\<close> or \<open>irrelevant\<close>.
\<close>

theorem classify_unblocked_reasons:
  "((\<forall>cat\<in>set cats. \<forall>kw\<in>set (blocklist_get cat). \<not> str_in kw (blob g t u)) \<longrightarrow>
      classify_relevance g t u cats =
        (if \<exists>w\<in>set (split (lower g)). length w > 3 \<and> str_in w (blob g t u)
         then (''relevant'', ''Goal keywords found in current context'')
         else (''relevant'', ''No blocklisted signals detected''))) \<and>
   classify_relevance ''abc'' (Some ''Unrelated Page'') None [] =
     (''relevant'', ''No blocklisted signals detected'') \<and>
   (fst (classify_relevance g t u cats) = ''relevant'' \<or>
    fst (classify_relevance g t u cats) = ''irrelevant'')"
proof (intro conjI impI)
  assume "\<forall>cat\<in>set cats. \<forall>kw\<in>set (blocklist_get cat). \<not> str_in kw (blob g t u)"
  then show "classify_relevance g t u cats =
        (if \<exists>w\<in>set (split (lower g)). length w > 3 \<and> str_in w (blob g t u)
         then (''relevant'', ''Goal keywords found in current context'')
         else (''relevant'', ''No blocklisted signals detected''))"
    by (rule classify_unblocked)
next
  show "classify_relevance ''abc'' (Some ''Unrelated Page'') None [] =
     (''relevant'', ''No blocklisted signals detected'')"
    by (rule classify_abc)
next
  show "fst (classify_relevance g t u cats) = ''relevant'' \<or>
    fst (classify_relevance g t u cats) = ''irrelevant''"
    by (rule decision_cases)
qed

lemma blob_thesis:
  "blob ''write thesis chapter'' (Some ''Thesis Chapter Draft - Google Docs'') None =
     ''write thesis chapter thesis chapter draft - google docs ''"
  by (simp add: blob_def lower_def lower_char_def lower_table_def or_empty_def)

lemma blob_abc: "blob ''abc'' (Some ''Unrelated Page'') None = ''abc unrelated page ''"
  by (simp add: blob_def lower_def lower_char_def lower_table_def or_empty_def)

lemma split_thesis: "split (lower ''write thesis chapter'') = [''write'', ''thesis'', ''chapter'']"
  by (simp add: split_def lower_def lower_char_def lower_table_def is_space_def)

lemma split_abc: "split (lower ''abc'') = [''abc'']"
  by (simp add: split_def lower_def lower_char_def lower_table_def is_space_def)

theorem classify_unblocked_reasons_witness:
  "classify_relevance ''write thesis chapter'' (Some ''Thesis Chapter Draft - Google Docs'') None
     [''social''] =
     (''relevant'', ''Goal keywords found in current context'') \<and>
   classify_relevance ''abc'' (Some ''Unrelated Page'') None [''social''] =
     (''relevant'', ''No blocklisted signals detected'')"
proof -
  have h1: "\<forall>cat\<in>set [''social'']. \<forall>kw\<in>set (blocklist_get cat).
      \<not> str_in kw (blob ''write thesis chapter'' (Some ''Thesis Chapter Draft - Google Docs'') None)"
    by (simp add: blob_thesis blocklist_social)
  have h2: "\<forall>cat\<in>set [''social'']. \<forall>kw\<in>set (blocklist_get cat).
      \<not> str_in kw (blob ''abc'' (Some ''Unrelated Page'') None)"
    by (simp add: blob_abc blocklist_social)
  show ?thesis
    using classify_unblocked_reasons [of "[''social'']" "''write thesis chapter''"
                "Some ''Thesis Chapter Draft - Google Docs''" None] h1
          classify_unblocked_reasons [of "[''social'']" "''abc''" "Some ''Unrelated Page''" None] h2
    by (simp add: blob_thesis blob_abc split_thesis split_abc)
qed

text \<open>
  The reasons as claim C3 spells them, all in lowercase, are not the reasons returned.
\<close>

theorem classify_reason_spelling_counterexample:
  "classify_relevance ''abc'' (Some ''Unrelated Page'') None [] \<noteq>
     (''relevant'', ''no blocklisted signals detected'') \<and>
   classify_relevance ''write thesis chapter'' (Some ''Thesis Chapter Draft - Google Docs'') None
     [] \<noteq> (''relevant'', ''goal keywords found in current context'')"
  by (simp add: classify_abc classify_thesis)

subsection \<open>The goal is part of the blob\<close>

text \<open>
  Claim C10. When the goal has a word longer than 3 characters and no keyword of an enabled
  category occurs in the blob, the result is \<open>relevant\<close> with the goal-keywords reason,
  whatever the title and the url are; and the default reason ``No blocklisted signals
  detected'' is returned only when every word of the goal has at most 3 characters.
\<close>

theorem goal_word_always_matches:
  "((\<exists>w\<in>set (split g). length w > 3) \<and>
    (\<forall>cat\<in>set cats. \<forall>kw\<in>set (blocklist_get cat). \<not> str_in kw (blob g t u)) \<longrightarrow>
      classify_relevance g t u cats = (''relevant'', ''Goal keywords found in current context'')) \<and>
   (classify_relevance g t u cats = (''relevant'', ''No blocklisted signals detected'') \<longrightarrow>
      (\<forall>w\<in>set (split g). length w \<le> 3))"
proof (intro conjI impI)
  assume a: "(\<exists>w\<in>set (split g). length w > 3) \<and>
    (\<forall>cat\<in>set cats. \<forall>kw\<in>set (blocklist_get cat). \<not> str_in kw (blob g t u))"
  then have "scan_categories (blob g t u) cats = None"
    by (simp add: scan_categories_None)
  moreover from a have "list_ex (\<lambda>w. str_in w (blob g t u)) (goal_words g)"
    by (simp add: goal_word_found)
  ultimately show "classify_relevance g t u cats =
      (''relevant'', ''Goal keywords found in current context'')"
    by (simp add: classify_relevance_def)
next
  assume d: "classify_relevance g t u cats = (''relevant'', ''No blocklisted signals detected'')"
  show "\<forall>w\<in>set (split g). length w \<le> 3"
  proof (rule ccontr)
    assume "\<not> (\<forall>w\<in>set (split g). length w \<le> 3)"
    then have "\<exists>w\<in>set (split g). length w > 3" by (auto simp: not_le)
    then have "list_ex (\<lambda>w. str_in w (blob g t u)) (goal_words g)" by (rule goal_word_found)
    with d show False
      by (auto simp: classify_relevance_def Let_def split: option.splits)
  qed
qed

theorem goal_word_always_matches_witness:
  "(\<exists>w\<in>set (split ''write thesis chapter''). length w > 3) \<and>
   classify_relevance ''write thesis chapter'' (Some ''Unrelated Page'') (Some ''example.org'')
     [''social''] = (''relevant'', ''Goal keywords found in current context'') \<and>
   classify_relevance ''abc'' (Some ''Unrelated Page'') None [''social''] =
     (''relevant'', ''No blocklisted signals detected'') \<and>
   list_all (\<lambda>w. length w \<le> 3) (split ''abc'')"
proof -
  have s1: "split ''write thesis chapter'' = [''write'', ''thesis'', ''chapter'']"
    by (simp add: split_def is_space_def)
  have b1: "blob ''write thesis chapter'' (Some ''Unrelated Page'') (Some ''example.org'') =
      ''write thesis chapter unrelated page example.org''"
    by (simp add: blob_def lower_def lower_char_def lower_table_def or_empty_def)
  have h1: "(\<exists>w\<in>set (split ''write thesis chapter''). length w > 3) \<and>
      (\<forall>cat\<in>set [''social'']. \<forall>kw\<in>set (blocklist_get cat).
         \<not> str_in kw (blob ''write thesis chapter'' (Some ''Unrelated Page'') (Some ''example.org'')))"
    by (simp add: s1 b1 blocklist_social)
  show ?thesis
    using goal_word_always_matches [of "''write thesis chapter''" "[''social'']"
                 "Some ''Unrelated Page''" "Some ''example.org''"] h1
          goal_word_always_matches [of "''abc''" "[''social'']" "Some ''Unrelated Page''" None]
          classify_abc(2)
    by (simp add: list_all_iff)
qed

subsection \<open>Which match is reported\<close>

text \<open>
  Claim C4, as amended. The pair reported is the first match in the order of the two loops:
  the session's categories in the order the session lists them, each with its keywords in
  table-declaration order. So the result depends on the order of the session's category
  list; it is the first match in table-declaration order when the session lists its
  categories in the order of the table.
\<close>

theorem classify_first_match_order:
  "scan_categories (blob g t u) cats =
     List.find (\<lambda>(kw, cat). str_in kw (blob g t u)) (category_pairs cats) \<and>
   classify_relevance g t u cats =
     (case List.find (\<lambda>(kw, cat). str_in kw (blob g t u)) (category_pairs cats) of
        Some (kw, cat) \<Rightarrow> (''irrelevant'', matched_reason kw cat)
      | None \<Rightarrow> classify_relevance g t u []) \<and>
   scan_categories (blob g t u) (filter P (map fst BLOCKLIST_KEYWORDS)) =
     table_order_match (blob g t u) (filter P (map fst BLOCKLIST_KEYWORDS))"
  by (simp add: scan_categories_find [symmetric] classify_relevance_def Let_def
        table_order_listing split: option.splits)

theorem classify_first_match_order_witness:
  "category_pairs [''games'', ''social''] =
     [(''steam'', ''games''), (''epicgames'', ''games''), (''roblox'', ''games''),
      (''league of legends'', ''games''), (''valorant'', ''games''),
      (''twitter'', ''social''), (''x.com'', ''social''), (''facebook'', ''social''),
      (''instagram'', ''social''), (''tiktok'', ''social''), (''reddit'', ''social'')] \<and>
   scan_categories (blob ''x'' (Some ''steam twitter'') None) [''games'', ''social''] =
     Some (''steam'', ''games'')"
proof -
  have b: "blob ''x'' (Some ''steam twitter'') None = ''x steam twitter ''"
    by (simp add: blob_def lower_def lower_char_def lower_table_def or_empty_def)
  have c: "category_pairs [''games'', ''social''] =
     [(''steam'', ''games''), (''epicgames'', ''games''), (''roblox'', ''games''),
      (''league of legends'', ''games''), (''valorant'', ''games''),
      (''twitter'', ''social''), (''x.com'', ''social''), (''facebook'', ''social''),
      (''instagram'', ''social''), (''tiktok'', ''social''), (''reddit'', ''social'')]"
    by (simp add: category_pairs_def blocklist_get_def BLOCKLIST_KEYWORDS_def)
  show ?thesis
    using classify_first_match_order [of "''x''" "Some ''steam twitter''" None
            "[''games'', ''social'']"]
    by (simp add: b c)
qed

text \<open>
  With the categories listed as \<open>[games, social]\<close> and a title that holds a keyword of
  each, the code reports the match of \<open>games\<close>, where table-declaration order gives the
  match of \<open>social\<close>; listing the same categories in the other order changes the result.
\<close>

theorem classify_table_order_counterexample:
  "classify_relevance ''x'' (Some ''steam twitter'') None [''games'', ''social''] =
     (''irrelevant'', matched_reason ''steam'' ''games'') \<and>
   table_order_match (blob ''x'' (Some ''steam twitter'') None) [''games'', ''social''] =
     Some (''twitter'', ''social'') \<and>
   classify_relevance ''x'' (Some ''steam twitter'') None [''social'', ''games''] =
     (''irrelevant'', matched_reason ''twitter'' ''social'') \<and>
   classify_relevance ''x'' (Some ''steam twitter'') None [''games'', ''social''] \<noteq>
   classify_relevance ''x'' (Some ''steam twitter'') None [''social'', ''games'']"
  by (simp add: classify_eval table_order_match_def table_pairs_def matched_reason_def)

section \<open>Properties of the store and the endpoints\<close>

subsection \<open>Finding and updating by identifier\<close>

lemma find_by_id_append:
  "find_by_id (coll @ [(k', doc)]) k = find_by_id coll k @ (if k' = k then [doc] else [])"
  by (simp add: find_by_id_def)

lemma find_by_id_update_one:
  "find_by_id (fst (update_one coll k0 f)) k =
     (if k = k0 then (case find_by_id coll k of [] \<Rightarrow> [] | doc # docs \<Rightarrow> f doc # docs)
      else find_by_id coll k)"
  by (induction coll) (auto simp: find_by_id_def split: prod.splits list.splits)

lemma matched_count_update_one:
  "snd (update_one coll k f) = (if find_by_id coll k = [] then 0 else 1)"
  by (induction coll) (auto simp: find_by_id_def split: prod.splits)

lemma fold_max_ge: "b \<le> fold max zs (b::nat)"
  by (induction zs arbitrary: b) (auto intro: order_trans [OF max.cobounded2])

lemma le_fold_max: "x \<in> set xs \<Longrightarrow> x \<le> fold max xs (a::nat)"
proof (induction xs arbitrary: a)
  case Nil
  then show ?case by simp
next
  case (Cons y ys)
  consider (head) "x = y" | (tail) "x \<in> set ys"
    using Cons.prems by auto
  then show ?case
  proof cases
    case head
    have "y \<le> max y a" by simp
    also have "\<dots> \<le> fold max ys (max y a)" by (rule fold_max_ge)
    finally show ?thesis using head by simp
  next
    case tail
    then show ?thesis using Cons.IH by simp
  qed
qed

lemma new_oid_fresh: "find_by_id coll (new_oid coll) = []"
proof -
  have "fst x \<noteq> new_oid coll" if "x \<in> set coll" for x
  proof
    assume eq: "fst x = new_oid coll"
    from that have "oid_num (fst x) \<in> set (map (\<lambda>(k, doc). oid_num k) coll)"
      by (force simp: case_prod_beta)
    then have "oid_num (fst x) \<le> fold max (map (\<lambda>(k, doc). oid_num k) coll) 0"
      by (rule le_fold_max)
    with eq show False by (simp add: new_oid_def)
  qed
  then have "\<forall>x\<in>set coll. fst x \<noteq> new_oid coll"
    by simp
  then show ?thesis
    by (auto simp: find_by_id_def filter_empty_conv)
qed

lemma lookup_session_simps:
  "lookup_session (st\<lparr>session_coll := coll\<rparr>) k =
     (case find_by_id coll k of [] \<Rightarrow> None | doc # _ \<Rightarrow> Some doc)"
  "lookup_session (st\<lparr>activityevent_coll := ev\<rparr>) k = lookup_session st k"
  "lookup_session (st\<lparr>user_coll := us\<rparr>) k = lookup_session st k"
  by (simp_all add: lookup_session_def)

lemma lookup_update_one:
  "lookup_session (st\<lparr>session_coll := fst (update_one (session_coll st) k0 f)\<rparr>) k =
     (if k = k0 then map_option f (lookup_session st k) else lookup_session st k)"
  by (simp add: lookup_session_def find_by_id_update_one split: list.splits)

subsection \<open>Identifiers\<close>

lemma ObjectId_error: "ObjectId s = Inl e \<Longrightarrow> e = InvalidId"
  by (auto simp: ObjectId_def split: if_splits option.splits)

lemma ObjectId_length: "length s \<noteq> 24 \<Longrightarrow> ObjectId s = Inl InvalidId"
  by (simp add: ObjectId_def)

lemma hex_digit_not_space: "hex_val c = Some v \<Longrightarrow> \<not> hex_space c"
  by (auto simp: hex_val_def hex_space_def split: if_splits)

lemma fromhex_digits:
  "\<forall>c\<in>set s. hex_val c \<noteq> None \<Longrightarrow> even (length s) \<Longrightarrow>
     \<exists>bs. fromhex s = Some bs \<and> 2 * length bs = length s"
proof (induction s rule: induct_list012)
  case 1
  then show ?case by simp
next
  case (2 c)
  then show ?case by simp
next
  case (3 c c' cs)
  from "3.prems" obtain hi lo where d: "hex_val c = Some hi" "hex_val c' = Some lo"
    by auto
  from "3.prems" have "\<forall>c\<in>set cs. hex_val c \<noteq> None" "even (length cs)"
    by simp_all
  with "3.IH"(1) obtain bs where "fromhex cs = Some bs" "2 * length bs = length cs"
    by blast
  with d hex_digit_not_space [OF d(1)] show ?case by simp
qed

lemma ObjectId_digits:
  assumes "length s = 24" and "\<forall>c\<in>set s. hex_val c \<noteq> None"
  shows "\<exists>n. ObjectId s = Inr (Oid n)"
proof -
  from fromhex_digits [OF assms(2)] assms(1) obtain bs where
    "fromhex s = Some bs" "2 * length bs = length s" by auto
  with assms(1) show ?thesis by (simp add: ObjectId_def oid_of_bytes_def)
qed

lemma oid_one: "ObjectId ''000000000000000000000001'' = Inr (Oid 1)"
  by (simp add: ObjectId_def hex_val_def hex_space_def oid_of_bytes_def from_bytes_def)

lemma oid_abc: "ObjectId ''abc'' = Inl InvalidId"
  by (simp add: ObjectId_def)

lemma oid_spaced:
  "ObjectId ''00 00 00 00 00 00 00 01 '' = Inr (ShortId [0, 0, 0, 0, 0, 0, 0, 1])"
  by (simp add: ObjectId_def hex_val_def hex_space_def oid_of_bytes_def)

subsection \<open>The endpoints, case by case\<close>

lemma update_activity_found:
  assumes "ObjectId (ua_session_id p) = Inr k" and "lookup_session st k = Some d"
  shows "fst (update_activity st p te tu) =
           Inr (classify_relevance (goal d) (ua_title p) (ua_url p) (categories d))"
    and "session_coll (snd (update_activity st p te tu)) =
           fst (update_one (session_coll st) k
             (accrue (fst (classify_relevance (goal d) (ua_title p) (ua_url p) (categories d))) tu))"
    and "length (activityevent_coll (snd (update_activity st p te tu))) =
           Suc (length (activityevent_coll st))"
    and "user_coll (snd (update_activity st p te tu)) = user_coll st"
  using assms
  by (auto simp: update_activity_def lookup_session_def insert_one_def Let_def
           split: list.splits prod.splits)

lemma update_activity_lookup:
  assumes "ObjectId (ua_session_id p) = Inr k" and "lookup_session st k = Some d"
  shows "lookup_session (snd (update_activity st p te tu)) k' =
     (if k' = k
      then Some (accrue (fst (classify_relevance (goal d) (ua_title p) (ua_url p) (categories d)))
                   tu d)
      else lookup_session st k')"
  using assms(2)
  by (simp add: lookup_session_def [of "snd (update_activity st p te tu)"]
        update_activity_found(2) [OF assms] find_by_id_update_one)
     (simp add: lookup_session_def split: list.splits)

lemma update_activity_missing:
  assumes "ObjectId (ua_session_id p) = Inr k" and "lookup_session st k = None"
  shows "update_activity st p te tu = (Inl (HTTPException 404 ''Session not found''), st)"
  using assms by (simp add: update_activity_def lookup_session_def split: list.splits)

lemma update_activity_invalid:
  assumes "ObjectId (ua_session_id p) = Inl e"
  shows "update_activity st p te tu = (Inl e, st)"
  using assms by (simp add: update_activity_def)

lemma start_session_eq:
  "start_session st p now =
     (if 1 \<le> rq_duration_minutes p \<and> rq_duration_minutes p \<le> 480
      then (Inr (str_oid (new_oid (session_coll st)), active),
            st\<lparr>session_coll := session_coll st @ [(new_oid (session_coll st), new_session p now)]\<rparr>)
      else (Inl ValidationError, st))"
  by (simp add: start_session_def validate_Session_def insert_one_def Let_def new_session_def)

lemma end_session_eq:
  "end_session st sid now =
     (case ObjectId sid of
        Inl e \<Rightarrow> (Inl e, st)
      | Inr k \<Rightarrow>
          if find_by_id (session_coll st) k = []
          then (Inl (HTTPException 404 ''Session not found''), st)
          else (Inr ''ended'',
                st\<lparr>session_coll := fst (update_one (session_coll st) k
                     (\<lambda>doc. doc\<lparr>status := ended, ended_at := Some now\<rparr>))\<rparr>))"
  by (simp add: end_session_def split_beta matched_count_update_one split: sum.splits)

lemma accrue_fields:
  "goal (accrue c t d) = goal d"
  "categories (accrue c t d) = categories d"
  "status (accrue c t d) = status d"
  "total_idle_seconds (accrue c t d) = total_idle_seconds d"
  "user_id (accrue c t d) = user_id d"
  by (simp_all add: accrue_def)

subsection \<open>Example data, evaluated\<close>

lemma lookup_example:
  "lookup_session (example_store [d]) (Oid 1) = Some d"
  "lookup_session (example_store [d]) (Oid (Suc 0)) = Some d"
  "lookup_session (example_store []) k = None"
  by (simp_all add: lookup_session_def example_store_def find_by_id_def)

lemma example_fields:
  "goal (example_session u f i n s) = ''finish report''"
  "categories (example_session u f i n s) = [''social'']"
  "total_focus_seconds (example_session u f i n s) = f"
  "total_idle_seconds (example_session u f i n s) = i"
  "distractions_blocked (example_session u f i n s) = n"
  "status (example_session u f i n s) = s"
  "user_id (example_session u f i n s) = u"
  "ua_session_id (example_activity sid t b) = sid"
  "ua_title (example_activity sid t b) = t"
  "ua_url (example_activity sid t b) = None"
  "rq_duration_minutes (example_start m) = m"
  by (simp_all add: example_session_def example_activity_def example_start_def)

subsection \<open>Accrual\<close>

text \<open>
  Claim C2. For an activity event on a stored session: when the decision is \<open>irrelevant\<close>,
  \<open>distractions_blocked\<close> grows by exactly 1 and \<open>total_focus_seconds\<close> is unchanged; when it
  is \<open>relevant\<close>, \<open>total_focus_seconds\<close> grows by exactly 30 and \<open>distractions_blocked\<close> is
  unchanged; \<open>total_idle_seconds\<close> is unchanged, and the sessions after the event are the
  same for either value of the idle flag.
\<close>

theorem accrual_increments:
  assumes "ObjectId (ua_session_id p) = Inr k" and "lookup_session st k = Some d"
  shows "\<exists>d'. lookup_session (snd (update_activity st p te tu)) k = Some d' \<and>
     (fst (classify_relevance (goal d) (ua_title p) (ua_url p) (categories d)) = ''irrelevant'' \<longrightarrow>
        distractions_blocked d' = distractions_blocked d + 1 \<and>
        total_focus_seconds d' = total_focus_seconds d) \<and>
     (fst (classify_relevance (goal d) (ua_title p) (ua_url p) (categories d)) = ''relevant'' \<longrightarrow>
        total_focus_seconds d' = total_focus_seconds d + 30 \<and>
        distractions_blocked d' = distractions_blocked d) \<and>
     total_idle_seconds d' = total_idle_seconds d \<and>
     session_coll (snd (update_activity st (p\<lparr>ua_idle := True\<rparr>) te tu)) =
       session_coll (snd (update_activity st (p\<lparr>ua_idle := False\<rparr>) te tu))"
proof -
  have "session_coll (snd (update_activity st (p\<lparr>ua_idle := b\<rparr>) te tu)) =
      session_coll (snd (update_activity st p te tu))" for b
    using assms
    by (simp add: update_activity_found(2) [where k = k and d = d])
  then show ?thesis
    using assms by (simp add: update_activity_lookup accrue_def)
qed

theorem accrual_increments_witness:
  "(\<exists>d'. lookup_session
           (snd (update_activity (example_store [example_session ''u'' 0 0 0 active])
              (example_activity ''000000000000000000000001'' (Some ''Twitter feed'') True) 5 6)) (Oid 1) =
         Some d' \<and>
       distractions_blocked d' = 1 \<and> total_focus_seconds d' = 0 \<and> total_idle_seconds d' = 0) \<and>
   (\<exists>d'. lookup_session
           (snd (update_activity (example_store [example_session ''u'' 0 0 0 active])
              (example_activity ''000000000000000000000001'' (Some ''Quarterly report'') True) 5 6)) (Oid 1) =
         Some d' \<and>
       distractions_blocked d' = 0 \<and> total_focus_seconds d' = 30 \<and> total_idle_seconds d' = 0)"
  using
    accrual_increments
      [of "example_activity ''000000000000000000000001'' (Some ''Twitter feed'') True" "Oid 1"
          "example_store [example_session ''u'' 0 0 0 active]"
          "example_session ''u'' 0 0 0 active" 5 6]
    accrual_increments
      [of "example_activity ''000000000000000000000001'' (Some ''Quarterly report'') True" "Oid 1"
          "example_store [example_session ''u'' 0 0 0 active]"
          "example_session ''u'' 0 0 0 active" 5 6]
  by (auto simp: example_fields oid_one lookup_example classify_twitter classify_report)

subsection \<open>Unknown and malformed session identifiers\<close>

text \<open>
  Claim C5, as amended. When the session identifier is a well-formed store identifier (24
  hexadecimal digits) and no session document is stored under it, the activity endpoint
  fails with the 404 ``Session not found'' and the store is unchanged: no event is created
  and no counter changes. When \<^verbatim>\<open>ObjectId\<close> rejects the identifier, as it does every string
  whose length is not 24, it raises \<open>InvalidId\<close> before the store is read; the call fails
  with that error, not with a 404, and the store is unchanged. When a session is stored under
  the identifier, the call succeeds and returns the classifier's decision and reason.
\<close>

theorem activity_session_lookup:
  "(length (ua_session_id p) = 24 \<and> (\<forall>c\<in>set (ua_session_id p). hex_val c \<noteq> None) \<longrightarrow>
      (\<exists>n. ObjectId (ua_session_id p) = Inr (Oid n) \<and>
           (lookup_session st (Oid n) = None \<longrightarrow>
              update_activity st p te tu = (Inl (HTTPException 404 ''Session not found''), st)))) \<and>
   (ObjectId (ua_session_id p) = Inl e \<longrightarrow>
      e = InvalidId \<and> update_activity st p te tu = (Inl InvalidId, st)) \<and>
   (length (ua_session_id p) \<noteq> 24 \<longrightarrow> ObjectId (ua_session_id p) = Inl InvalidId) \<and>
   (ObjectId (ua_session_id p) = Inr k \<and> lookup_session st k = Some d \<longrightarrow>
      fst (update_activity st p te tu) =
        Inr (classify_relevance (goal d) (ua_title p) (ua_url p) (categories d)))"
proof (intro conjI impI)
  assume "length (ua_session_id p) = 24 \<and> (\<forall>c\<in>set (ua_session_id p). hex_val c \<noteq> None)"
  then obtain n where n: "ObjectId (ua_session_id p) = Inr (Oid n)"
    using ObjectId_digits by blast
  then show "\<exists>n. ObjectId (ua_session_id p) = Inr (Oid n) \<and>
           (lookup_session st (Oid n) = None \<longrightarrow>
              update_activity st p te tu = (Inl (HTTPException 404 ''Session not found''), st))"
    by (auto simp: update_activity_missing)
next
  assume e: "ObjectId (ua_session_id p) = Inl e"
  then show "e = InvalidId" by (rule ObjectId_error)
  with e show "update_activity st p te tu = (Inl InvalidId, st)"
    by (simp add: update_activity_invalid)
next
  assume "length (ua_session_id p) \<noteq> 24"
  then show "ObjectId (ua_session_id p) = Inl InvalidId" by (rule ObjectId_length)
next
  assume "ObjectId (ua_session_id p) = Inr k \<and> lookup_session st k = Some d"
  then show "fst (update_activity st p te tu) =
        Inr (classify_relevance (goal d) (ua_title p) (ua_url p) (categories d))"
    by (simp add: update_activity_found(1))
qed

lemma hex_digits_one: "\<forall>c\<in>set ''000000000000000000000001''. hex_val c \<noteq> None"
  by (simp add: hex_val_def)

theorem activity_session_lookup_witness:
  "update_activity (example_store []) (example_activity ''000000000000000000000001'' None False) 5 6 =
     (Inl (HTTPException 404 ''Session not found''), example_store []) \<and>
   update_activity (example_store []) (example_activity ''abc'' None False) 5 6 =
     (Inl InvalidId, example_store []) \<and>
   fst (update_activity (example_store [example_session ''u'' 0 0 0 active])
          (example_activity ''000000000000000000000001'' (Some ''Twitter feed'') False) 5 6) =
     Inr (''irrelevant'', matched_reason ''twitter'' ''social'')"
  using
    activity_session_lookup
      [of "example_activity ''000000000000000000000001'' None False" "example_store []" 5 6]
    activity_session_lookup
      [of "example_activity ''abc'' None False" "example_store []" 5 6 InvalidId]
    activity_session_lookup
      [of "example_activity ''000000000000000000000001'' (Some ''Twitter feed'') False"
          "example_store [example_session ''u'' 0 0 0 active]" 5 6 _ "Oid 1"
          "example_session ''u'' 0 0 0 active"]
    hex_digits_one
  by (simp add: example_fields oid_one oid_abc lookup_example classify_twitter)

text \<open>
  No session is stored, the identifier is the string ``abc'': the call fails, the store is
  unchanged, but the error is \<open>InvalidId\<close> and not the 404 of claim C5.
\<close>

theorem activity_malformed_id_counterexample:
  "session_coll (example_store []) = [] \<and>
   update_activity (example_store []) (example_activity ''abc'' None False) 5 6 =
     (Inl InvalidId, example_store []) \<and>
   fst (update_activity (example_store []) (example_activity ''abc'' None False) 5 6) \<noteq>
     Inl (HTTPException 404 ''Session not found'')"
  by (simp add: update_activity_invalid example_fields oid_abc)
     (simp add: example_store_def)


subsection \<open>Counters never decrease, ended is terminal\<close>

lemma session_le_refl: "session_le d d"
  by (simp add: session_le_def)

lemma session_le_trans: "session_le a b \<Longrightarrow> session_le b c \<Longrightarrow> session_le a c"
  by (auto simp: session_le_def)

lemma session_le_accrue: "session_le d (accrue c t d)"
  by (simp add: session_le_def accrue_def)

lemma session_le_end: "session_le d (d\<lparr>status := ended, ended_at := Some t\<rparr>)"
  by (simp add: session_le_def)

lemma start_session_keeps:
  assumes "lookup_session st k = Some d"
  shows "lookup_session (snd (start_session st p now)) k = Some d"
  using assms
  by (simp add: start_session_eq lookup_session_def find_by_id_append split: list.splits)

lemma end_session_keeps:
  assumes "lookup_session st k = Some d"
  shows "\<exists>d'. lookup_session (snd (end_session st sid now)) k = Some d' \<and> session_le d d'"
  using assms
  by (auto simp: end_session_eq lookup_update_one session_le_refl session_le_end
           split: sum.splits)

lemma update_activity_keeps:
  assumes "lookup_session st k = Some d"
  shows "\<exists>d'. lookup_session (snd (update_activity st p te tu)) k = Some d' \<and> session_le d d'"
proof -
  consider (invalid) e where "ObjectId (ua_session_id p) = Inl e"
    | (missing) k0 where "ObjectId (ua_session_id p) = Inr k0" "lookup_session st k0 = None"
    | (found) k0 d0 where "ObjectId (ua_session_id p) = Inr k0" "lookup_session st k0 = Some d0"
    by (metis sum.exhaust option.exhaust)
  then show ?thesis
  proof cases
    case invalid
    then show ?thesis using assms by (simp add: update_activity_invalid session_le_refl)
  next
    case missing
    then show ?thesis using assms by (simp add: update_activity_missing session_le_refl)
  next
    case found
    show ?thesis
      using assms found(2)
      by (auto simp: update_activity_lookup [OF found] session_le_refl session_le_accrue)
  qed
qed

lemma handle_keeps:
  assumes "lookup_session st k = Some d"
  shows "\<exists>d'. lookup_session (handle st r) k = Some d' \<and> session_le d d'"
proof (cases r)
  case (Register user)
  then show ?thesis using assms
    by (simp add: register_user_def lookup_session_simps session_le_refl split: prod.splits)
next
  case (Start payload now)
  then show ?thesis using start_session_keeps [OF assms] by (simp add: session_le_refl)
next
  case (Activity payload te tu)
  then show ?thesis using update_activity_keeps [OF assms] by simp
next
  case (End sid now)
  then show ?thesis using end_session_keeps [OF assms] by simp
next
  case (Summarize u)
  then show ?thesis using assms by (simp add: session_le_refl)
qed

lemma run_keeps:
  "lookup_session st k = Some d \<Longrightarrow>
     \<exists>d'. lookup_session (run st rs) k = Some d' \<and> session_le d d'"
proof (induction rs arbitrary: st d)
  case Nil
  then show ?case by (simp add: session_le_refl)
next
  case (Cons r rs)
  from handle_keeps [OF Cons.prems] obtain d1 where
    d1: "lookup_session (handle st r) k = Some d1" "session_le d d1" by blast
  from Cons.IH [OF d1(1)] obtain d2 where
    "lookup_session (run (handle st r) rs) k = Some d2" "session_le d1 d2" by blast
  with d1(2) show ?case by (auto intro: session_le_trans)
qed

text \<open>
  Claim C7. For a stored session and any sequence of requests (register, start, activity,
  end, summary), the session is still stored afterwards, none of its three counters is
  smaller than before, and if its status was \<open>ended\<close> it still is: no request sets a status
  back to \<open>active\<close>.
\<close>

theorem counters_monotone_ended_terminal:
  assumes "lookup_session st k = Some d"
  shows "\<exists>d'. lookup_session (run st rs) k = Some d' \<and>
     total_focus_seconds d \<le> total_focus_seconds d' \<and>
     total_idle_seconds d \<le> total_idle_seconds d' \<and>
     distractions_blocked d \<le> distractions_blocked d' \<and>
     (status d = ended \<longrightarrow> status d' = ended)"
  using run_keeps [OF assms, of rs] by (simp add: session_le_def)

theorem counters_monotone_ended_terminal_witness:
  "lookup_session (example_store [example_session ''u'' 60 0 1 ended]) (Oid 1) =
     Some (example_session ''u'' 60 0 1 ended) \<and>
   (\<exists>d'. lookup_session
           (run (example_store [example_session ''u'' 60 0 1 ended])
              [Activity (example_activity ''000000000000000000000001'' (Some ''Twitter feed'') False) 5 6,
               End ''000000000000000000000001'' 7,
               Start (example_start 25) 8,
               Activity (example_activity ''000000000000000000000001'' None True) 9 10]) (Oid 1) =
         Some d' \<and>
       60 \<le> total_focus_seconds d' \<and> 0 \<le> total_idle_seconds d' \<and>
       1 \<le> distractions_blocked d' \<and> status d' = ended)"
  using counters_monotone_ended_terminal
    [of "example_store [example_session ''u'' 60 0 1 ended]" "Oid 1"
        "example_session ''u'' 60 0 1 ended"
        "[Activity (example_activity ''000000000000000000000001'' (Some ''Twitter feed'') False) 5 6,
          End ''000000000000000000000001'' 7,
          Start (example_start 25) 8,
          Activity (example_activity ''000000000000000000000001'' None True) 9 10]"]
  by (simp add: lookup_example example_fields)

subsection \<open>Every activity call counts\<close>

text \<open>
  Claim C9. On a stored session, two activity calls with the same payload both succeed with
  the same decision, add two events, and move the counter of that decision by twice the
  single increment: \<open>distractions_blocked\<close> by 2 when the decision is \<open>irrelevant\<close>,
  \<open>total_focus_seconds\<close> by 60 when it is \<open>relevant\<close>. Each call changes the stored session
  and leaves its status as it was, so this holds for a session that has ended as well.
\<close>

theorem activity_not_idempotent:
  assumes "ObjectId (ua_session_id p) = Inr k" and "lookup_session st k = Some d"
  shows "\<exists>d1 d2.
     lookup_session (snd (update_activity st p t1 t2)) k = Some d1 \<and>
     lookup_session (snd (update_activity (snd (update_activity st p t1 t2)) p t3 t4)) k = Some d2 \<and>
     fst (update_activity st p t1 t2) =
       Inr (classify_relevance (goal d) (ua_title p) (ua_url p) (categories d)) \<and>
     fst (update_activity (snd (update_activity st p t1 t2)) p t3 t4) =
       Inr (classify_relevance (goal d) (ua_title p) (ua_url p) (categories d)) \<and>
     (fst (classify_relevance (goal d) (ua_title p) (ua_url p) (categories d)) = ''irrelevant'' \<longrightarrow>
        distractions_blocked d2 = distractions_blocked d + 2 \<and>
        total_focus_seconds d2 = total_focus_seconds d) \<and>
     (fst (classify_relevance (goal d) (ua_title p) (ua_url p) (categories d)) = ''relevant'' \<longrightarrow>
        total_focus_seconds d2 = total_focus_seconds d + 60 \<and>
        distractions_blocked d2 = distractions_blocked d) \<and>
     d1 \<noteq> d \<and> d2 \<noteq> d1 \<and> status d1 = status d \<and> status d2 = status d \<and>
     length (activityevent_coll (snd (update_activity (snd (update_activity st p t1 t2)) p t3 t4))) =
       length (activityevent_coll st) + 2"
proof -
  let ?c = "classify_relevance (goal d) (ua_title p) (ua_url p) (categories d)"
  let ?st1 = "snd (update_activity st p t1 t2)"
  let ?d1 = "accrue (fst ?c) t2 d"
  let ?d2 = "accrue (fst ?c) t4 ?d1"
  have l1: "lookup_session ?st1 k = Some ?d1"
    using assms by (simp add: update_activity_lookup)
  have c1: "classify_relevance (goal ?d1) (ua_title p) (ua_url p) (categories ?d1) = ?c"
    by (simp add: accrue_fields)
  have l2: "lookup_session (snd (update_activity ?st1 p t3 t4)) k = Some ?d2"
    using update_activity_lookup [OF assms(1) l1, of t3 t4 k] by (simp add: c1)
  have r1: "fst (update_activity st p t1 t2) = Inr ?c"
    using assms by (rule update_activity_found(1))
  have r2: "fst (update_activity ?st1 p t3 t4) = Inr ?c"
    using update_activity_found(1) [OF assms(1) l1, of t3 t4] by (simp add: c1)
  have n: "length (activityevent_coll (snd (update_activity ?st1 p t3 t4))) =
      length (activityevent_coll st) + 2"
    using update_activity_found(3) [OF assms(1) l1, of t3 t4]
          update_activity_found(3) [OF assms, of t1 t2]
    by simp
  have ne1: "?d1 \<noteq> d"
  proof
    assume "?d1 = d"
    then have "distractions_blocked ?d1 = distractions_blocked d"
      "total_focus_seconds ?d1 = total_focus_seconds d" by simp_all
    then show False by (simp add: accrue_def split: if_splits)
  qed
  have ne2: "?d2 \<noteq> ?d1"
  proof
    assume "?d2 = ?d1"
    then have "distractions_blocked ?d2 = distractions_blocked ?d1"
      "total_focus_seconds ?d2 = total_focus_seconds ?d1" by simp_all
    then show False by (simp add: accrue_def split: if_splits)
  qed
  have counters:
    "fst ?c = ''irrelevant'' \<longrightarrow>
       distractions_blocked ?d2 = distractions_blocked d + 2 \<and>
       total_focus_seconds ?d2 = total_focus_seconds d"
    "fst ?c = ''relevant'' \<longrightarrow>
       total_focus_seconds ?d2 = total_focus_seconds d + 60 \<and>
       distractions_blocked ?d2 = distractions_blocked d"
    by (simp_all add: accrue_def)
  have st: "status ?d1 = status d" "status ?d2 = status d"
    by (simp_all add: accrue_fields)
  from l1 l2 r1 r2 n ne1 ne2 counters st show ?thesis by blast
qed

theorem activity_not_idempotent_witness:
  "(\<exists>d1 d2.
     lookup_session
       (snd (update_activity (example_store [example_session ''u'' 60 0 1 ended])
          (example_activity ''000000000000000000000001'' (Some ''Twitter feed'') False) 5 6)) (Oid 1) =
       Some d1 \<and>
     lookup_session
       (snd (update_activity
          (snd (update_activity (example_store [example_session ''u'' 60 0 1 ended])
             (example_activity ''000000000000000000000001'' (Some ''Twitter feed'') False) 5 6))
          (example_activity ''000000000000000000000001'' (Some ''Twitter feed'') False) 7 8)) (Oid 1) =
       Some d2 \<and>
     distractions_blocked d2 = 3 \<and> total_focus_seconds d2 = 60 \<and>
     d1 \<noteq> example_session ''u'' 60 0 1 ended \<and> status d1 = ended \<and> status d2 = ended) \<and>
   fst (update_activity (example_store [example_session ''u'' 60 0 1 ended])
          (example_activity ''000000000000000000000001'' (Some ''Twitter feed'') False) 5 6) =
     Inr (''irrelevant'', matched_reason ''twitter'' ''social'')"
  using activity_not_idempotent
    [of "example_activity ''000000000000000000000001'' (Some ''Twitter feed'') False" "Oid 1"
        "example_store [example_session ''u'' 60 0 1 ended]"
        "example_session ''u'' 60 0 1 ended" 5 6 7 8]
  by (auto simp: example_fields oid_one lookup_example classify_twitter)

subsection \<open>Starting a session\<close>

text \<open>
  Claim C8. Starting a session with a duration from 1 to 480 minutes stores one new session
  document, under an identifier that was not in use, and answers with that identifier and
  the status \<open>active\<close>; with any other duration it raises the validation error and the store
  is unchanged. So a session is created exactly when the duration is within 1 and 480; the
  durations 0 and 481 are rejected, 1 and 480 are accepted.
\<close>

theorem start_session_duration_bounds:
  "((1 \<le> rq_duration_minutes p \<and> rq_duration_minutes p \<le> 480) \<longrightarrow>
      (\<exists>k. start_session st p now =
              (Inr (str_oid k, active),
               st\<lparr>session_coll := session_coll st @ [(k, new_session p now)]\<rparr>) \<and>
           lookup_session st k = None \<and>
           lookup_session (snd (start_session st p now)) k = Some (new_session p now))) \<and>
   (\<not> (1 \<le> rq_duration_minutes p \<and> rq_duration_minutes p \<le> 480) \<longrightarrow>
      start_session st p now = (Inl ValidationError, st)) \<and>
   (length (session_coll (snd (start_session st p now))) = Suc (length (session_coll st)) \<longleftrightarrow>
      1 \<le> rq_duration_minutes p \<and> rq_duration_minutes p \<le> 480) \<and>
   start_session st (p\<lparr>rq_duration_minutes := 0\<rparr>) now = (Inl ValidationError, st) \<and>
   start_session st (p\<lparr>rq_duration_minutes := 481\<rparr>) now = (Inl ValidationError, st) \<and>
   fst (start_session st (p\<lparr>rq_duration_minutes := 1\<rparr>) now) =
     Inr (str_oid (new_oid (session_coll st)), active) \<and>
   fst (start_session st (p\<lparr>rq_duration_minutes := 480\<rparr>) now) =
     Inr (str_oid (new_oid (session_coll st)), active)"
proof -
  have fresh: "lookup_session st (new_oid (session_coll st)) = None"
    by (simp add: lookup_session_def new_oid_fresh)
  have stored: "lookup_session
      (st\<lparr>session_coll := session_coll st @ [(new_oid (session_coll st), s)]\<rparr>)
      (new_oid (session_coll st)) = Some s" for s
    by (simp add: lookup_session_def find_by_id_append new_oid_fresh)
  show ?thesis
    using fresh stored by (auto simp: start_session_eq)
qed

theorem start_session_duration_bounds_witness:
  "(\<exists>k. start_session (example_store []) (example_start 25) 5 =
           (Inr (str_oid k, active),
            example_store []\<lparr>session_coll :=
              session_coll (example_store []) @ [(k, new_session (example_start 25) 5)]\<rparr>) \<and>
        lookup_session (example_store []) k = None \<and>
        lookup_session (snd (start_session (example_store []) (example_start 25) 5)) k =
          Some (new_session (example_start 25) 5)) \<and>
   start_session (example_store []) (example_start 0) 5 =
     (Inl ValidationError, example_store []) \<and>
   start_session (example_store []) (example_start 481) 5 =
     (Inl ValidationError, example_store [])"
  using start_session_duration_bounds [of "example_start 25" "example_store []" 5]
        start_session_duration_bounds [of "example_start 0" "example_store []" 5]
        start_session_duration_bounds [of "example_start 481" "example_store []" 5]
  by (simp add: example_fields)

subsection \<open>The summary\<close>

lemma get_documents_session_props:
  "length (get_documents_session st u n) \<le> n"
  "list_all (\<lambda>d. user_id d = u) (get_documents_session st u n)"
  "set (get_documents_session st u n) \<subseteq> snd ` set (session_coll st)"
proof -
  show "length (get_documents_session st u n) \<le> n"
    by (simp add: get_documents_session_def)
  have sub: "set (get_documents_session st u n) \<subseteq>
      set (map snd (filter (\<lambda>(k, doc). user_id doc = u) (session_coll st)))"
    unfolding get_documents_session_def by (rule set_take_subset)
  then show "list_all (\<lambda>d. user_id d = u) (get_documents_session st u n)"
    by (auto simp: list_all_iff)
  from sub show "set (get_documents_session st u n) \<subseteq> snd ` set (session_coll st)"
    by auto
qed

text \<open>
  Claim C6. The summary reads at most 50 session documents, all of them sessions of that
  user in the store; it returns their number, the sums of their three counters, and as
  streak the minimum of their number and 7; the store is not changed. A user whose two
  sessions have the counters (60, 0, 1) and (90, 0, 2) gets 2 sessions, 150 focus seconds,
  0 idle seconds, 3 distractions and a streak of 2.
\<close>

theorem session_summary_totals:
  "length (get_documents_session st u 50) \<le> 50 \<and>
   list_all (\<lambda>d. user_id d = u) (get_documents_session st u 50) \<and>
   set (get_documents_session st u 50) \<subseteq> snd ` set (session_coll st) \<and>
   session_summary st u =
     \<lparr>sm_sessions = length (get_documents_session st u 50),
      sm_total_focus_seconds = sum_list (map total_focus_seconds (get_documents_session st u 50)),
      sm_total_idle_seconds = sum_list (map total_idle_seconds (get_documents_session st u 50)),
      sm_distractions_blocked = sum_list (map distractions_blocked (get_documents_session st u 50)),
      sm_streak_days = min (length (get_documents_session st u 50)) 7\<rparr> \<and>
   sm_sessions (session_summary st u) \<le> 50 \<and>
   sm_streak_days (session_summary st u) = min (sm_sessions (session_summary st u)) 7 \<and>
   handle st (Summarize u) = st \<and>
   (session_coll st = [(k1, d1), (k2, d2)] \<and> user_id d1 = u \<and> user_id d2 = u \<and>
    total_focus_seconds d1 = 60 \<and> total_idle_seconds d1 = 0 \<and> distractions_blocked d1 = 1 \<and>
    total_focus_seconds d2 = 90 \<and> total_idle_seconds d2 = 0 \<and> distractions_blocked d2 = 2 \<longrightarrow>
      session_summary st u =
        \<lparr>sm_sessions = 2, sm_total_focus_seconds = 150, sm_total_idle_seconds = 0,
         sm_distractions_blocked = 3, sm_streak_days = 2\<rparr>)"
proof (intro conjI impI)
  show "session_summary st u =
     \<lparr>sm_sessions = length (get_documents_session st u 50),
      sm_total_focus_seconds = sum_list (map total_focus_seconds (get_documents_session st u 50)),
      sm_total_idle_seconds = sum_list (map total_idle_seconds (get_documents_session st u 50)),
      sm_distractions_blocked = sum_list (map distractions_blocked (get_documents_session st u 50)),
      sm_streak_days = min (length (get_documents_session st u 50)) 7\<rparr>"
    by (simp add: session_summary_def Let_def)
  show "sm_sessions (session_summary st u) \<le> 50"
    by (simp add: session_summary_def Let_def get_documents_session_props(1))
  show "sm_streak_days (session_summary st u) = min (sm_sessions (session_summary st u)) 7"
    by (simp add: session_summary_def Let_def)
  show "handle st (Summarize u) = st" by simp
next
  assume "session_coll st = [(k1, d1), (k2, d2)] \<and> user_id d1 = u \<and> user_id d2 = u \<and>
    total_focus_seconds d1 = 60 \<and> total_idle_seconds d1 = 0 \<and> distractions_blocked d1 = 1 \<and>
    total_focus_seconds d2 = 90 \<and> total_idle_seconds d2 = 0 \<and> distractions_blocked d2 = 2"
  then show "session_summary st u =
        \<lparr>sm_sessions = 2, sm_total_focus_seconds = 150, sm_total_idle_seconds = 0,
         sm_distractions_blocked = 3, sm_streak_days = 2\<rparr>"
    by (simp add: session_summary_def get_documents_session_def Let_def)
qed (rule get_documents_session_props)+

theorem session_summary_totals_witness:
  "session_coll (example_store [example_session ''u'' 60 0 1 ended,
                                example_session ''u'' 90 0 2 ended]) =
     [(Oid 1, example_session ''u'' 60 0 1 ended), (Oid 2, example_session ''u'' 90 0 2 ended)] \<and>
   session_summary (example_store [example_session ''u'' 60 0 1 ended,
                                   example_session ''u'' 90 0 2 ended]) ''u'' =
     \<lparr>sm_sessions = 2, sm_total_focus_seconds = 150, sm_total_idle_seconds = 0,
      sm_distractions_blocked = 3, sm_streak_days = 2\<rparr>"
proof -
  let ?a = "example_session ''u'' 60 0 1 ended"
  let ?b = "example_session ''u'' 90 0 2 ended"
  have c: "session_coll (example_store [?a, ?b]) = [(Oid 1, ?a), (Oid 2, ?b)]"
    by (simp add: example_store_def upt_rec)
  have h: "session_coll (example_store [?a, ?b]) = [(Oid 1, ?a), (Oid 2, ?b)] \<and>
      user_id ?a = ''u'' \<and> user_id ?b = ''u'' \<and>
      total_focus_seconds ?a = 60 \<and> total_idle_seconds ?a = 0 \<and> distractions_blocked ?a = 1 \<and>
      total_focus_seconds ?b = 90 \<and> total_idle_seconds ?b = 0 \<and> distractions_blocked ?b = 2"
    using c by (simp add: example_fields)
  show ?thesis
    using session_summary_totals [of "example_store [?a, ?b]" "''u''" "Oid 1" ?a "Oid 2" ?b] h
    by blast
qed

end
